theory Spec2Isabelle
  imports Complex_Main
begin

section \<open>JavaScript values\<close>

text \<open>
  A JavaScript number is a finite value, one of the two infinities, or NaN. Finite values
  are kept as exact rationals; neither the rounding of IEEE doubles nor the sign of zero
  is modelled.
\<close>

datatype jsnum = NaN | PosInf | NegInf | Fin rat

definition isFinite :: "jsnum \<Rightarrow> bool" where
  "isFinite x = (case x of Fin _ \<Rightarrow> True | _ \<Rightarrow> False)"

text \<open>\<open>x || 0\<close> on a number: the falsy numbers are zero and NaN.\<close>

definition orZero :: "jsnum \<Rightarrow> jsnum" where
  "orZero x = (if x = NaN \<or> x = Fin 0 then Fin 0 else x)"

text \<open>\<open>x ?? d\<close> on an optional value.\<close>

definition coalesce :: "'a option \<Rightarrow> 'a \<Rightarrow> 'a" where
  "coalesce x d = (case x of None \<Rightarrow> d | Some v \<Rightarrow> v)"

text \<open>\<open>s || ''\<close> on an optional string: undefined and the empty string are falsy.\<close>

definition orEmpty :: "string option \<Rightarrow> string" where
  "orEmpty s = (case s of None \<Rightarrow> [] | Some v \<Rightarrow> (if v = [] then [] else v))"

section \<open>Generated entity types\<close>

datatype TestCaseStatus = Success | Failed | Aborted | Queued

datatype ThreadTaskStatus = Closed | Open

record TaskDetails =
  status :: "ThreadTaskStatus option"
  closedAt :: "int option"
  testCaseResolutionStatusId :: "string option"

record Thread =
  thread_id :: string
  task :: "TaskDetails option"

record TestResultValue =
  trv_name :: "string option"
  trv_value :: "string option"

record TestCaseParameterValue =
  param_name :: "string option"
  param_value :: "string option"

text \<open>
  A test case result with the properties that the component reads; each may be missing,
  but for the timestamp (an epoch in milliseconds), which every result carries.
\<close>

record TestCaseResult =
  timestamp :: int
  testCaseStatus :: "TestCaseStatus option"
  testResultValue :: "TestResultValue list option"
  passedRows :: "int option"
  failedRows :: "int option"
  passedRowsPercentage :: "rat option"
  failedRowsPercentage :: "rat option"
  incidentId :: "string option"

text \<open>
  The test case handed to the component. Only four of its properties are read;
  \<open>otherKeys\<close> lists the names of the further own properties of the object, which
  matter to \<open>isEmpty\<close> alone.
\<close>

record TestCase =
  tc_name :: "string option"
  fullyQualifiedName :: "string option"
  parameterValues :: "TestCaseParameterValue list option"
  description :: "string option"
  otherKeys :: "string list"

section \<open>Objects\<close>

datatype jsval =
    Undefined
  | Num jsnum
  | Str string
  | Status TestCaseStatus
  | Task Thread

text \<open>
  An object literal is a map from property names to values. A property may be present
  with the value \<open>undefined\<close>, which differs from an absent property. Reading any of the
  two gives \<open>undefined\<close>.
\<close>

type_synonym object = "string \<rightharpoonup> jsval"

definition get :: "object \<Rightarrow> string \<Rightarrow> jsval" where
  "get ob k = (case ob k of None \<Rightarrow> Undefined | Some v \<Rightarrow> v)"

definition optNum :: "int option \<Rightarrow> jsval" where
  "optNum x = (case x of None \<Rightarrow> Undefined | Some n \<Rightarrow> Num (Fin (of_int n)))"

definition optStr :: "string option \<Rightarrow> jsval" where
  "optStr x = (case x of None \<Rightarrow> Undefined | Some s \<Rightarrow> Str s)"

text \<open>Spreading \<open>...x\<close> into an object literal: \<open>undefined\<close> contributes nothing.\<close>

definition spread :: "object option \<Rightarrow> object" where
  "spread x = (case x of None \<Rightarrow> Map.empty | Some ob \<Rightarrow> ob)"

definition isUndefined :: "jsval \<Rightarrow> bool" where
  "isUndefined v = (v = Undefined)"

definition omitBy :: "object \<Rightarrow> (jsval \<Rightarrow> bool) \<Rightarrow> object" where
  "omitBy ob p = (\<lambda>k. case ob k of None \<Rightarrow> None | Some v \<Rightarrow> (if p v then None else Some v))"

section \<open>What the component imports\<close>

text \<open>
  The language built-ins \<open>parseFloat\<close> and \<open>parseInt\<close>, the conversion of a number in a
  template literal, lodash's \<open>round(number, precision)\<close> and the palette \<open>COLORS\<close> of
  \<open>constants/profiler.constant\<close> are not defined by the component. The model takes them
  as parameters, so that every theorem below holds whatever they compute.
\<close>

record externals =
  parseFloat :: "string \<Rightarrow> jsnum"
  parseInt :: "string \<Rightarrow> jsnum"
  lodash_round :: "jsnum \<Rightarrow> nat \<Rightarrow> jsnum"
  numberToString :: "jsnum \<Rightarrow> string"
  COLORS :: "string list"

section \<open>TestSummary: chartData\<close>

record ChartSeries =
  label :: string
  color :: "string option"

record ChartDataType =
  information :: "ChartSeries list"
  data :: "object list"

text \<open>The value computed for one entry of \<open>testResultValue\<close> inside the reducer.\<close>

definition metricValue :: "externals \<Rightarrow> TestResultValue \<Rightarrow> jsnum" where
  "metricValue L cur = orZero (lodash_round L (parseFloat L (coalesce (trv_value cur) [])) 2)"

definition resultValues :: "externals \<Rightarrow> TestCaseResult \<Rightarrow> object option" where
  "resultValues L result =
     map_option
       (foldl (\<lambda>acc cur. acc(coalesce (trv_name cur) ''value'' \<mapsto> Num (metricValue L cur)))
          Map.empty)
       (testResultValue result)"

definition percentage :: "externals \<Rightarrow> rat option \<Rightarrow> jsval" where
  "percentage L p =
     (case p of None \<Rightarrow> Undefined
      | Some q \<Rightarrow> Str (numberToString L (lodash_round L (Fin q) 2) @ ''%''))"

definition metric :: "externals \<Rightarrow> TestCaseResult \<Rightarrow> object" where
  "metric L result =
     [''passedRows'' \<mapsto> optNum (passedRows result),
      ''failedRows'' \<mapsto> optNum (failedRows result),
      ''passedRowsPercentage'' \<mapsto> percentage L (passedRowsPercentage result),
      ''failedRowsPercentage'' \<mapsto> percentage L (failedRowsPercentage result)]"

text \<open>
  \<open>task.task?.testCaseResolutionStatusId\<close>. It is compared with \<open>===\<close> to an optional
  incident identifier, so two undefined sides are equal, as two \<open>None\<close> are.
\<close>

definition resolutionStatusId :: "Thread \<Rightarrow> string option" where
  "resolutionStatusId t = Option.bind (task t) testCaseResolutionStatusId"

definition findTask :: "Thread list \<Rightarrow> TestCaseResult \<Rightarrow> jsval" where
  "findTask entityThread result =
     (case find (\<lambda>t. resolutionStatusId t = incidentId result) entityThread of
        None \<Rightarrow> Undefined | Some t \<Rightarrow> Task t)"

text \<open>The object pushed for one result. In an object literal a later property wins.\<close>

definition chartPoint :: "externals \<Rightarrow> Thread list \<Rightarrow> TestCaseResult \<Rightarrow> object" where
  "chartPoint L entityThread result =
     [''name'' \<mapsto> Num (Fin (of_int (timestamp result))),
      ''status'' \<mapsto> (case testCaseStatus result of None \<Rightarrow> Undefined | Some s \<Rightarrow> Status s)]
     ++ spread (resultValues L result)
     ++ omitBy (metric L result) isUndefined
     ++ [''incidentId'' \<mapsto> optStr (incidentId result),
         ''task'' \<mapsto> findTask entityThread result]"

definition nthOpt :: "'a list \<Rightarrow> nat \<Rightarrow> 'a option" where
  "nthOpt xs i = (if i < length xs then Some (xs ! i) else None)"

definition chartData :: "externals \<Rightarrow> Thread list \<Rightarrow> TestCaseResult list \<Rightarrow> ChartDataType" where
  "chartData L entityThread results =
     \<lparr> information =
         (case results of [] \<Rightarrow> []
          | r # _ \<Rightarrow>
             (case testResultValue r of None \<Rightarrow> []
              | Some vs \<Rightarrow>
                 map (\<lambda>(i, info). \<lparr> label = coalesce (trv_name info) [], color = nthOpt (COLORS L) i \<rparr>)
                   (enumerate 0 vs))),
       data = rev (foldl (\<lambda>acc result. acc @ [chartPoint L entityThread result]) [] results) \<rparr>"

section \<open>TestSummary: incidentData\<close>

record Incident =
  x1 :: jsval
  x2 :: jsval
  inc_task :: Thread

definition incidentOf :: "object list \<Rightarrow> Thread \<Rightarrow> Incident" where
  "incidentOf dat t =
     (let failedRows = filter (\<lambda>chart. optStr (resolutionStatusId t) = get chart ''incidentId'') dat
      in \<lparr> x1 = (case failedRows of [] \<Rightarrow> Undefined | c # _ \<Rightarrow> get c ''name''),
           x2 = (if Option.bind (task t) status = Some Closed
                 then optNum (Option.bind (task t) closedAt) else Undefined),
           inc_task = t \<rparr>)"

definition incidentData :: "externals \<Rightarrow> Thread list \<Rightarrow> TestCaseResult list \<Rightarrow> Incident list" where
  "incidentData L entityThread results =
     map (incidentOf (data (chartData L entityThread results))) entityThread"

section \<open>TestSummary: referenceArea\<close>

definition digitChar :: "nat \<Rightarrow> char" where
  "digitChar d = ''0123456789'' ! d"

text \<open>The decimal rendering of a natural number, as \<open>`${i + 1}`\<close> produces it.\<close>

fun natToString :: "nat \<Rightarrow> string" where
  "natToString n = (if n < 10 then [digitChar n] else natToString (n div 10) @ [digitChar (n mod 10)])"

declare natToString.simps [simp del]

datatype Reference =
    ReferenceLine object
  | ReferenceArea object

definition yValues :: "externals \<Rightarrow> TestCaseParameterValue list \<Rightarrow> object" where
  "yValues L params =
     foldl (\<lambda>acc (i, cur). acc(''y'' @ natToString (i + 1) \<mapsto> Num (parseInt L (orEmpty (param_value cur)))))
       Map.empty (enumerate 0 params)"

text \<open>
  The element returned by \<open>referenceArea()\<close>, with the properties handed to it that depend
  on the parameters: a \<open>ReferenceLine\<close> with its \<open>label\<close>, or a \<open>ReferenceArea\<close> with the
  properties spread into it. The fixed styling properties (fill, stroke, dash pattern,
  overflow) are the same on every call and left out.
\<close>

definition referenceArea :: "externals \<Rightarrow> TestCase \<Rightarrow> Reference" where
  "referenceArea L dat =
     (let params = coalesce (parameterValues dat) []
      in if length params \<noteq> 0 \<and> length params < 2
         then ReferenceLine [''label'' \<mapsto> optStr (param_name (params ! 0))]
         else ReferenceArea (yValues L params))"

section \<open>TestSummary: fetchTestResults\<close>

datatype AxiosError = AxiosError string

record DateRangeObject =
  startTs :: int
  endTs :: int
  dr_key :: "string option"
  dr_title :: "string option"

text \<open>
  The state of the component, together with a log of what it did to the outside: the
  calls of \<open>getListTestCaseResults\<close> (name and picked range) and the errors handed
  to \<open>showErrorToast\<close>.
\<close>

record TestSummaryState =
  results :: "TestCaseResult list"
  isLoading :: bool
  isGraphLoading :: bool
  selectedTimeRange :: string
  restCalls :: "(string \<times> int \<times> int) list"
  toasts :: "AxiosError list"

text \<open>lodash \<open>isEmpty\<close> on the test case: a missing object, or one with no own property.\<close>

definition isEmpty :: "TestCase option \<Rightarrow> bool" where
  "isEmpty dat =
     (case dat of None \<Rightarrow> True
      | Some d \<Rightarrow> tc_name d = None \<and> fullyQualifiedName d = None \<and> parameterValues d = None
          \<and> description d = None \<and> otherKeys d = [])"

text \<open>
  One call of \<open>fetchTestResults\<close>, run to its end. \<open>response\<close> is what the awaited REST
  call does: it rejects with an error (\<open>Inl\<close>) or resolves with the results (\<open>Inr\<close>).
\<close>

definition fetchTestResults ::
  "TestCase option \<Rightarrow> DateRangeObject \<Rightarrow> AxiosError + TestCaseResult list
     \<Rightarrow> TestSummaryState \<Rightarrow> TestSummaryState" where
  "fetchTestResults dat dateRangeObj response s =
     (if isEmpty dat then s
      else
        let s1 = s\<lparr>isGraphLoading := True\<rparr>;
            s2 = s1\<lparr>restCalls := restCalls s1 @
                   [(coalesce (Option.bind dat fullyQualifiedName) [],
                     startTs dateRangeObj, endTs dateRangeObj)]\<rparr>;
            s3 = (case response of
                    Inr chartData' \<Rightarrow> s2\<lparr>results := chartData'\<rparr>
                  | Inl error \<Rightarrow> s2\<lparr>toasts := toasts s2 @ [error]\<rparr>)
        in s3\<lparr>isLoading := False, isGraphLoading := False\<rparr>)"

section \<open>TestSummary: getGraph\<close>

text \<open>One incident \<open>ReferenceArea\<close> of the chart, with its \<open>key\<close>, \<open>x1\<close> and \<open>x2\<close>.\<close>

record Overlay =
  ov_key :: string
  ov_x1 :: jsval
  ov_x2 :: jsval

text \<open>
  What the rendered chart is made of, as far as it depends on the results and the threads:
  its data, the reference marker, one line per series and the incident areas. Axes, grid
  and tooltip are fixed, and the legend repeats the series.
\<close>

record LineChart =
  lc_data :: "object list"
  lc_reference :: Reference
  lc_lines :: "ChartSeries list"
  lc_incidents :: "Overlay list"

datatype Graph =
    Loader
  | NoResults string
  | Chart LineChart

definition getGraph :: "externals \<Rightarrow> Thread list \<Rightarrow> TestCase \<Rightarrow> TestSummaryState \<Rightarrow> Graph" where
  "getGraph L entityThread dat s =
     (if isGraphLoading s then Loader
      else if length (results s) \<noteq> 0 then
        Chart \<lparr> lc_data = data (chartData L entityThread (results s)),
                lc_reference = referenceArea L dat,
                lc_lines = information (chartData L entityThread (results s)),
                lc_incidents =
                  map (\<lambda>d. \<lparr> ov_key = thread_id (inc_task d), ov_x1 = x1 d, ov_x2 = x2 d \<rparr>)
                    (incidentData L entityThread (results s)) \<rparr>
      else NoResults (selectedTimeRange s))"

section \<open>DataModelSummary\<close>

text \<open>
  The data model handed to the panel; \<open>dm_otherKeys\<close> lists the names of its own
  properties other than the two named ones.
\<close>

record DashboardDataModel =
  dm_name :: "string option"
  columns :: "string list option"
  dm_otherKeys :: "string list"

definition isEmptyModel :: "DashboardDataModel \<Rightarrow> bool" where
  "isEmptyModel e = (dm_name e = None \<and> columns e = None \<and> dm_otherKeys e = [])"

record DataModelSummaryState =
  dataModelDetails :: DashboardDataModel

text \<open>\<open>useState(entityDetails)\<close> at the first render.\<close>

definition mount :: "DashboardDataModel \<Rightarrow> DataModelSummaryState" where
  "mount entityDetails = \<lparr> dataModelDetails = entityDetails \<rparr>"

text \<open>The effect that runs after a render with the property \<open>entityDetails\<close>.\<close>

definition updateEffect :: "DashboardDataModel \<Rightarrow> DataModelSummaryState \<Rightarrow> DataModelSummaryState" where
  "updateEffect entityDetails s =
     (if \<not> isEmptyModel entityDetails then s\<lparr>dataModelDetails := entityDetails\<rparr> else s)"

text \<open>The state after the first render with \<open>e0\<close> and the later renders with \<open>es\<close>.\<close>

definition renders :: "DashboardDataModel \<Rightarrow> DashboardDataModel list \<Rightarrow> DataModelSummaryState" where
  "renders e0 es = foldl (\<lambda>s e. updateEffect e s) (updateEffect e0 (mount e0)) es"

text \<open>The \<open>loading\<close> property given to \<open>SummaryPanelSkeleton\<close>.\<close>

definition skeletonLoading :: "bool \<Rightarrow> DataModelSummaryState \<Rightarrow> bool" where
  "skeletonLoading loading s = (loading \<or> isEmptyModel (dataModelDetails s))"

section \<open>A reference instance of the imports\<close>

text \<open>
  The theorems hold for every instance of \<open>externals\<close>. To evaluate the component on
  concrete inputs, the following instance follows the ECMAScript definitions of
  \<open>parseFloat\<close> and \<open>parseInt\<close> (no radix given) and lodash 4.17's \<open>round\<close>, on exact
  rationals: a value beyond the range or precision of a double is not rounded to one.
  Strings are byte strings, so only the ASCII white space is trimmed.
\<close>

definition isSpace :: "char \<Rightarrow> bool" where
  "isSpace c = (c \<in> set [CHR '' '', CHR 0x09, CHR 0x0A, CHR 0x0B, CHR 0x0C, CHR 0x0D])"

definition isDigit :: "char \<Rightarrow> bool" where
  "isDigit c = (c \<in> set ''0123456789'')"

definition hexDigits :: "(char \<times> nat) list" where
  "hexDigits =
     zip ''0123456789abcdef'' [0 ..< 16] @ zip ''ABCDEF'' [10 ..< 16]"

definition digitsValue :: "nat \<Rightarrow> string \<Rightarrow> nat" where
  "digitsValue radix ds = foldl (\<lambda>acc c. acc * radix + the (map_of hexDigits c)) 0 ds"

definition splitSign :: "string \<Rightarrow> rat \<times> string" where
  "splitSign s =
     (case s of [] \<Rightarrow> (1, [])
      | c # r \<Rightarrow> if c = CHR ''-'' then (- 1, r) else if c = CHR ''+'' then (1, r) else (1, s))"

definition exponentPart :: "string \<Rightarrow> int" where
  "exponentPart s =
     (case s of [] \<Rightarrow> 0
      | c # r \<Rightarrow>
          if c = CHR ''e'' \<or> c = CHR ''E'' then
            (let (sg, ds) = (case r of [] \<Rightarrow> (1, [])
                              | d # r' \<Rightarrow> if d = CHR ''-'' then (- 1, r')
                                         else if d = CHR ''+'' then (1, r') else (1, r));
                 ex = takeWhile isDigit ds
             in if ex = [] then 0 else sg * int (digitsValue 10 ex))
          else 0)"

definition pow10 :: "int \<Rightarrow> rat" where
  "pow10 e = (if 0 \<le> e then 10 ^ nat e else 1 / 10 ^ nat (- e))"

definition parseFloat_ref :: "string \<Rightarrow> jsnum" where
  "parseFloat_ref s =
     (let (sg, u) = splitSign (dropWhile isSpace s)
      in if take 8 u = ''Infinity'' then (if sg = 1 then PosInf else NegInf)
         else
           let ip = takeWhile isDigit u;
               r1 = dropWhile isDigit u;
               (fp, r2) = (case r1 of [] \<Rightarrow> ([], [])
                           | c # r \<Rightarrow> if c = CHR ''.''
                                      then (takeWhile isDigit r, dropWhile isDigit r)
                                      else ([], r1))
           in if ip = [] \<and> fp = [] then NaN
              else Fin (sg * (of_nat (digitsValue 10 ip)
                              + of_nat (digitsValue 10 fp) / 10 ^ length fp)
                           * pow10 (exponentPart r2)))"

definition parseInt_ref :: "string \<Rightarrow> jsnum" where
  "parseInt_ref s =
     (let (sg, u) = splitSign (dropWhile isSpace s);
          hex = (take 2 u = ''0x'' \<or> take 2 u = ''0X'');
          radix = (if hex then 16 else 10);
          v = (if hex then drop 2 u else u);
          ds = takeWhile (\<lambda>c. case map_of hexDigits c of None \<Rightarrow> False | Some d \<Rightarrow> d < radix) v
      in if ds = [] then NaN else Fin (sg * of_nat (digitsValue radix ds)))"

text \<open>
  \<open>round(number, precision)\<close>: a finite number is shifted, rounded by \<open>Math.round\<close>
  (half up) and shifted back; any other number is returned as \<open>Math.round\<close> returns it,
  unchanged.
\<close>

definition lodash_round_ref :: "jsnum \<Rightarrow> nat \<Rightarrow> jsnum" where
  "lodash_round_ref x precision =
     (case x of
        Fin q \<Rightarrow> Fin (of_int \<lfloor>q * 10 ^ precision + 1 / 2\<rfloor> / 10 ^ precision)
      | _ \<Rightarrow> x)"

text \<open>
  The decimal rendering of a number: exact for a value with at most sixteen fractional
  digits, cut after the sixteenth otherwise; no exponent notation.
\<close>

fun fracDigits :: "nat \<Rightarrow> rat \<Rightarrow> string" where
  "fracDigits 0 r = []"
| "fracDigits (Suc k) r =
     (if r = 0 then []
      else let d = \<lfloor>r * 10\<rfloor> in digitChar (nat d) # fracDigits k (r * 10 - of_int d))"

definition numberToString_ref :: "jsnum \<Rightarrow> string" where
  "numberToString_ref x =
     (case x of
        NaN \<Rightarrow> ''NaN''
      | PosInf \<Rightarrow> ''Infinity''
      | NegInf \<Rightarrow> ''-Infinity''
      | Fin q \<Rightarrow>
          (let fr = fracDigits 16 (\<bar>q\<bar> - of_int \<lfloor>\<bar>q\<bar>\<rfloor>)
           in (if q < 0 then ''-'' else [])
              @ natToString (nat \<lfloor>\<bar>q\<bar>\<rfloor>)
              @ (if fr = [] then [] else CHR ''.'' # fr)))"

text \<open>A sample palette of three colours stands for \<open>COLORS\<close>.\<close>

definition reference :: externals where
  "reference =
     \<lparr> parseFloat = parseFloat_ref, parseInt = parseInt_ref, lodash_round = lodash_round_ref,
       numberToString = numberToString_ref, COLORS = [''#7147E8'', ''#B02AAC'', ''#1890FF''] \<rparr>"

section \<open>Sample inputs\<close>

text \<open>Concrete inputs on which the component is evaluated below.\<close>

abbreviation newerResult :: "TestCaseResult" where
  "newerResult \<equiv>
     \<lparr>timestamp = 200, testCaseStatus = Some Failed,
       testResultValue = Some [\<lparr>trv_name = Some ''rowCount'', trv_value = Some ''12''\<rparr>],
       passedRows = None, failedRows = None,
       passedRowsPercentage = None, failedRowsPercentage = None,
       incidentId = Some ''i1''\<rparr>"

abbreviation olderResult :: "TestCaseResult" where
  "olderResult \<equiv>
     \<lparr>timestamp = 100, testCaseStatus = Some Success,
       testResultValue = Some [\<lparr>trv_name = Some ''rowCount'', trv_value = Some ''15''\<rparr>],
       passedRows = None, failedRows = None,
       passedRowsPercentage = None, failedRowsPercentage = None,
       incidentId = None\<rparr>"

abbreviation measuredResult :: "TestCaseResult" where
  "measuredResult \<equiv>
     \<lparr>timestamp = 300, testCaseStatus = Some Failed,
       testResultValue = Some [\<lparr>trv_name = Some ''rowCount'', trv_value = Some ''12''\<rparr>],
       passedRows = Some 2, failedRows = Some 4,
       passedRowsPercentage = Some (33333 / 1000), failedRowsPercentage = None,
       incidentId = None\<rparr>"

abbreviation closedThread :: "Thread" where
  "closedThread \<equiv>
     \<lparr>thread_id = ''a'',
       task = Some \<lparr>status = Some Closed, closedAt = Some 1700,
                    testCaseResolutionStatusId = Some ''i1''\<rparr>\<rparr>"

abbreviation openThread :: "Thread" where
  "openThread \<equiv>
     \<lparr>thread_id = ''b'',
       task = Some \<lparr>status = Some Open, closedAt = None,
                    testCaseResolutionStatusId = Some ''i2''\<rparr>\<rparr>"

abbreviation sampleTestCase :: "TestCase" where
  "sampleTestCase \<equiv>
     \<lparr>tc_name = Some ''t'', fullyQualifiedName = Some ''svc.db.t'',
       parameterValues = None, description = None, otherKeys = []\<rparr>"

abbreviation sampleRange :: "DateRangeObject" where
  "sampleRange \<equiv> \<lparr>startTs = 10, endTs = 20, dr_key = None, dr_title = None\<rparr>"

abbreviation initialState :: "TestSummaryState" where
  "initialState \<equiv>
     \<lparr>results = [], isLoading = True, isGraphLoading = True,
       selectedTimeRange = ''Last 30 days'', restCalls = [], toasts = []\<rparr>"

abbreviation sampleModel :: "DashboardDataModel" where
  "sampleModel \<equiv> \<lparr>dm_name = Some ''m'', columns = Some [''c''], dm_otherKeys = []\<rparr>"

abbreviation emptyModel :: "DashboardDataModel" where
  "emptyModel \<equiv> \<lparr>dm_name = None, columns = None, dm_otherKeys = []\<rparr>"

section \<open>Properties of chartData\<close>

lemma push_all: "foldl (\<lambda>acc r. acc @ [f r]) acc0 rs = acc0 @ map f rs"
  by (induction rs arbitrary: acc0) simp_all

lemma data_chartData:
  "data (chartData L entityThread rs) = rev (map (chartPoint L entityThread) rs)"
  by (simp add: chartData_def push_all)

lemma orZero_not_NaN: "orZero x \<noteq> NaN"
  by (simp add: orZero_def)

text \<open>Every property the reducer leaves in its accumulator was there before or comes from an entry.\<close>

lemma values_fold_lookup:
  "foldl (\<lambda>acc cur. acc(coalesce (trv_name cur) ''value'' \<mapsto> Num (metricValue L cur))) acc0 vs k = Some v
   \<Longrightarrow> acc0 k = Some v
       \<or> (\<exists>cur \<in> set vs. k = coalesce (trv_name cur) ''value'' \<and> v = Num (metricValue L cur))"
proof (induction vs arbitrary: acc0)
  case Nil
  then show ?case by simp
next
  case (Cons c vs)
  from Cons.prems
  have "foldl (\<lambda>acc cur. acc(coalesce (trv_name cur) ''value'' \<mapsto> Num (metricValue L cur)))
      (acc0(coalesce (trv_name c) ''value'' \<mapsto> Num (metricValue L c))) vs k = Some v"
    by (simp only: foldl_Cons)
  from Cons.IH [OF this]
  show ?case by (auto split: if_splits)
qed

lemma resultValues_lookup:
  assumes "spread (resultValues L r) k = Some v"
  shows "\<exists>cur \<in> set (coalesce (testResultValue r) []).
           k = coalesce (trv_name cur) ''value'' \<and> v = Num (metricValue L cur)"
proof (cases "testResultValue r")
  case None
  with assms show ?thesis by (simp add: spread_def resultValues_def)
next
  case (Some vs)
  with assms
  have "foldl (\<lambda>acc cur. acc(coalesce (trv_name cur) ''value'' \<mapsto> Num (metricValue L cur)))
      Map.empty vs k = Some v"
    by (simp add: spread_def resultValues_def)
  from values_fold_lookup [OF this] Some show ?thesis
    by (simp add: coalesce_def)
qed

lemma chartPoint_name:
  assumes "\<forall>cur \<in> set (coalesce (testResultValue r) []). trv_name cur \<noteq> Some ''name''"
  shows "chartPoint L th r ''name'' = Some (Num (Fin (of_int (timestamp r))))"
proof -
  have "spread (resultValues L r) ''name'' = None"
  proof (cases "spread (resultValues L r) ''name''")
    case (Some v)
    from resultValues_lookup [OF Some] assms show ?thesis
      by (auto simp: coalesce_def split: option.splits)
  qed simp
  then show ?thesis
    by (simp add: chartPoint_def map_add_def omitBy_def metric_def)
qed

lemma chartPoint_incidentId:
  "chartPoint L th r ''incidentId'' = Some (optStr (incidentId r))"
  by (simp add: chartPoint_def)

lemma get_incidentId: "get (chartPoint L th r) ''incidentId'' = optStr (incidentId r)"
  by (simp add: get_def chartPoint_incidentId)

lemma chartPoint_lookup:
  assumes "k \<noteq> ''incidentId''" "k \<noteq> ''task''"
  shows "chartPoint L th r k
       = (case omitBy (metric L r) isUndefined k of
            Some v \<Rightarrow> Some v
          | None \<Rightarrow>
             (case spread (resultValues L r) k of
                Some v \<Rightarrow> Some v
              | None \<Rightarrow>
                 [''name'' \<mapsto> Num (Fin (of_int (timestamp r))),
                  ''status'' \<mapsto> (case testCaseStatus r of None \<Rightarrow> Undefined | Some s \<Rightarrow> Status s)] k))"
  using assms by (simp add: chartPoint_def map_add_def)

lemma metric_lookup:
  "metric L r ''passedRows'' = Some (optNum (passedRows r))"
  "metric L r ''failedRows'' = Some (optNum (failedRows r))"
  "metric L r ''passedRowsPercentage'' = Some (percentage L (passedRowsPercentage r))"
  "metric L r ''failedRowsPercentage'' = Some (percentage L (failedRowsPercentage r))"
  by (simp_all add: metric_def)

lemma metric_dom:
  "k \<notin> {''passedRows'', ''failedRows'', ''passedRowsPercentage'', ''failedRowsPercentage''}
   \<Longrightarrow> metric L r k = None"
  by (simp add: metric_def)

lemma omitBy_Some: "ob k = Some v \<Longrightarrow> omitBy ob isUndefined k = (if v = Undefined then None else Some v)"
  by (simp add: omitBy_def isUndefined_def)

lemma chartPoint_metric_key:
  assumes "k \<in> {''passedRows'', ''failedRows'', ''passedRowsPercentage'', ''failedRowsPercentage''}"
  shows "chartPoint L th r k
       = (if metric L r k = Some Undefined then spread (resultValues L r) k else metric L r k)"
proof -
  from assms have n: "k \<noteq> ''incidentId''" "k \<noteq> ''task''" "k \<noteq> ''name''" "k \<noteq> ''status''"
    by auto
  from assms obtain v where v: "metric L r k = Some v"
    using metric_lookup [of L r] by auto
  show ?thesis
    by (simp add: chartPoint_lookup [OF n(1,2)] omitBy_Some [of "metric L r" k v, OF v] v n
        split: option.splits)
qed

lemma values_never_Undefined: "spread (resultValues L r) k \<noteq> Some Undefined"
  using resultValues_lookup [of L r k Undefined] by auto

lemma values_absent:
  assumes "\<forall>cur \<in> set (coalesce (testResultValue r) []). coalesce (trv_name cur) ''value'' \<noteq> k"
  shows "spread (resultValues L r) k = None"
proof (cases "spread (resultValues L r) k")
  case (Some v)
  from resultValues_lookup [OF Some] assms show ?thesis by auto
qed simp

lemma reference_simps:
  "parseFloat reference = parseFloat_ref"
  "parseInt reference = parseInt_ref"
  "lodash_round reference = lodash_round_ref"
  "numberToString reference = numberToString_ref"
  "COLORS reference = [''#7147E8'', ''#B02AAC'', ''#1890FF'']"
  by (simp_all add: reference_def)

lemma sample_numbers:
  "numberToString_ref (lodash_round_ref (Fin (33333 / 1000)) 2) = ''33.33''"
  "metricValue reference \<lparr>trv_name = Some ''passedRowsPercentage'', trv_value = Some ''5''\<rparr> = Fin 5"
  "metricValue reference \<lparr>trv_name = Some ''rowCount'', trv_value = Some ''abc''\<rparr> = Fin 0"
  "metricValue reference \<lparr>trv_name = Some ''rowCount'', trv_value = None\<rparr> = Fin 0"
  "metricValue reference \<lparr>trv_name = Some ''rowCount'', trv_value = Some ''Infinity''\<rparr> = PosInf"
  by code_simp+

text \<open>
  C1 (amended). For every list of fetched results, \<open>chartData.data\<close> has one entry per
  result, and the entries are the chart points of the results in reversed order: the list
  is reversed once and never sorted. So the entries follow each other by ascending
  timestamp exactly when the fetched list comes newest first. Unless a result value is
  itself called \<open>name\<close>, the \<open>name\<close> property of the entries, which the X axis reads, is
  the list of the timestamps in reversed order.
\<close>

theorem chartData_length_order:
  "length (data (chartData L entityThread rs)) = length rs
   \<and> data (chartData L entityThread rs) = map (chartPoint L entityThread) (rev rs)
   \<and> (sorted_wrt (\<lambda>a b. timestamp a \<le> timestamp b) (rev rs)
        \<longleftrightarrow> sorted_wrt (\<lambda>a b. timestamp b \<le> timestamp a) rs)
   \<and> ((\<forall>r \<in> set rs. \<forall>cur \<in> set (coalesce (testResultValue r) []). trv_name cur \<noteq> Some ''name'')
        \<longrightarrow> map (\<lambda>p. get p ''name'') (data (chartData L entityThread rs))
            = map (\<lambda>r. Num (Fin (of_int (timestamp r)))) (rev rs))"
proof -
  have d: "data (chartData L entityThread rs) = map (chartPoint L entityThread) (rev rs)"
    by (simp add: data_chartData rev_map)
  have s: "sorted_wrt (\<lambda>a b. timestamp a \<le> timestamp b) (rev rs)
        \<longleftrightarrow> sorted_wrt (\<lambda>a b. timestamp b \<le> timestamp a) rs"
    by (simp add: sorted_wrt_rev)
  have n: "map (\<lambda>p. get p ''name'') (data (chartData L entityThread rs))
                = map (\<lambda>r. Num (Fin (of_int (timestamp r)))) (rev rs)"
    if "\<forall>r \<in> set rs. \<forall>cur \<in> set (coalesce (testResultValue r) []). trv_name cur \<noteq> Some ''name''"
    using that by (simp add: d get_def chartPoint_name)
  from d s n show ?thesis by simp
qed

theorem chartData_length_order_witness:
  "sorted_wrt (\<lambda>a b. timestamp b \<le> timestamp a) [newerResult, olderResult]
   \<and> length (data (chartData reference [] [newerResult, olderResult])) = length [newerResult, olderResult]
   \<and> map (\<lambda>p. get p ''name'') (data (chartData reference [] [newerResult, olderResult]))
     = [Num (Fin 100), Num (Fin 200)]"
proof -
  have h: "sorted_wrt (\<lambda>a b. timestamp b \<le> timestamp a) [newerResult, olderResult]"
    by simp
  have n: "\<forall>r \<in> set [newerResult, olderResult].
             \<forall>cur \<in> set (coalesce (testResultValue r) []). trv_name cur \<noteq> Some ''name''"
    by (simp add: coalesce_def)
  note t = chartData_length_order
    [where L = reference and entityThread = "[]" and rs = "[newerResult, olderResult]"]
  from t have l: "length (data (chartData reference [] [newerResult, olderResult]))
      = length [newerResult, olderResult]"
    by blast
  from t n have m: "map (\<lambda>p. get p ''name'') (data (chartData reference [] [newerResult, olderResult]))
      = map (\<lambda>r. Num (Fin (of_int (timestamp r)))) (rev [newerResult, olderResult])"
    by blast
  from h l m show ?thesis by simp
qed

text \<open>
  C1 as stated fails: a page that lists the older result first comes out with the newer
  entry first, so its entries are not in ascending order.
\<close>

theorem chartData_length_order_counterexample:
  "data (chartData reference [] [olderResult, newerResult])
     = [chartPoint reference [] newerResult, chartPoint reference [] olderResult]
   \<and> map (\<lambda>p. get p ''name'') (data (chartData reference [] [olderResult, newerResult]))
     = [Num (Fin 200), Num (Fin 100)]
   \<and> \<not> sorted_wrt (\<lambda>a b. timestamp a \<le> timestamp b) (rev [olderResult, newerResult])"
  by (simp add: data_chartData get_def chartPoint_name coalesce_def)

text \<open>The same holds strictly: distinct descending timestamps come out strictly ascending.\<close>

lemma chartData_strict_order:
  "sorted_wrt (\<lambda>a b. timestamp b < timestamp a) rs
   \<Longrightarrow> sorted_wrt (\<lambda>a b. timestamp a < timestamp b) (rev rs)"
  by (simp add: sorted_wrt_rev)

text \<open>
  C6 (amended). For a result whose \<open>passedRowsPercentage\<close> is undefined, the chart point has
  under that key what the result values put there: nothing, unless one of the values of
  the result is itself called \<open>passedRowsPercentage\<close>, and never the value \<open>undefined\<close>.
  When the percentage is defined, the chart point carries it rounded to two decimals and
  followed by \<open>%\<close>. The same holds for \<open>failedRowsPercentage\<close>, and for \<open>passedRows\<close> and
  \<open>failedRows\<close>, which are carried as numbers.
\<close>

theorem chartPoint_omits_undefined:
  "(passedRowsPercentage r = None \<longrightarrow>
        chartPoint L th r ''passedRowsPercentage'' = spread (resultValues L r) ''passedRowsPercentage'')
   \<and> (passedRowsPercentage r = Some q \<longrightarrow>
        chartPoint L th r ''passedRowsPercentage''
        = Some (Str (numberToString L (lodash_round L (Fin q) 2) @ ''%'')))
   \<and> (failedRowsPercentage r = None \<longrightarrow>
        chartPoint L th r ''failedRowsPercentage'' = spread (resultValues L r) ''failedRowsPercentage'')
   \<and> (failedRowsPercentage r = Some q' \<longrightarrow>
        chartPoint L th r ''failedRowsPercentage''
        = Some (Str (numberToString L (lodash_round L (Fin q') 2) @ ''%'')))
   \<and> (passedRows r = None \<longrightarrow>
        chartPoint L th r ''passedRows'' = spread (resultValues L r) ''passedRows'')
   \<and> (passedRows r = Some n \<longrightarrow> chartPoint L th r ''passedRows'' = Some (Num (Fin (of_int n))))
   \<and> (failedRows r = None \<longrightarrow>
        chartPoint L th r ''failedRows'' = spread (resultValues L r) ''failedRows'')
   \<and> (failedRows r = Some n' \<longrightarrow> chartPoint L th r ''failedRows'' = Some (Num (Fin (of_int n'))))
   \<and> (\<forall>k \<in> {''passedRows'', ''failedRows'', ''passedRowsPercentage'', ''failedRowsPercentage''}.
         chartPoint L th r k \<noteq> Some Undefined
       \<and> (metric L r k = Some Undefined
            \<and> (\<forall>cur \<in> set (coalesce (testResultValue r) []). coalesce (trv_name cur) ''value'' \<noteq> k)
           \<longrightarrow> chartPoint L th r k = None))"
proof -
  have u: "chartPoint L th r k \<noteq> Some Undefined
       \<and> (metric L r k = Some Undefined
            \<and> (\<forall>cur \<in> set (coalesce (testResultValue r) []). coalesce (trv_name cur) ''value'' \<noteq> k)
           \<longrightarrow> chartPoint L th r k = None)"
    if "k \<in> {''passedRows'', ''failedRows'', ''passedRowsPercentage'', ''failedRowsPercentage''}" for k
    using values_never_Undefined [of L r k] values_absent [of r k L]
    by (auto simp: chartPoint_metric_key [OF that])
  have p: "chartPoint L th r ''passedRowsPercentage''
       = (if passedRowsPercentage r = None then spread (resultValues L r) ''passedRowsPercentage''
          else metric L r ''passedRowsPercentage'')"
    by (subst chartPoint_metric_key) (auto simp: metric_def percentage_def)
  have f: "chartPoint L th r ''failedRowsPercentage''
       = (if failedRowsPercentage r = None then spread (resultValues L r) ''failedRowsPercentage''
          else metric L r ''failedRowsPercentage'')"
    by (subst chartPoint_metric_key) (auto simp: metric_def percentage_def)
  have pr: "chartPoint L th r ''passedRows''
       = (if passedRows r = None then spread (resultValues L r) ''passedRows''
          else metric L r ''passedRows'')"
    by (subst chartPoint_metric_key) (auto simp: metric_def optNum_def)
  have fr: "chartPoint L th r ''failedRows''
       = (if failedRows r = None then spread (resultValues L r) ''failedRows''
          else metric L r ''failedRows'')"
    by (subst chartPoint_metric_key) (auto simp: metric_def optNum_def)
  have v: "metric L r ''passedRowsPercentage'' = Some (percentage L (passedRowsPercentage r))"
    "metric L r ''failedRowsPercentage'' = Some (percentage L (failedRowsPercentage r))"
    "metric L r ''passedRows'' = Some (optNum (passedRows r))"
    "metric L r ''failedRows'' = Some (optNum (failedRows r))"
    by (simp_all add: metric_def)
  from u show ?thesis
    by (simp add: p f pr fr v percentage_def optNum_def)
qed

theorem chartPoint_omits_undefined_witness:
  "chartPoint reference [] measuredResult ''passedRowsPercentage'' = Some (Str ''33.33%'')
   \<and> chartPoint reference [] measuredResult ''failedRowsPercentage'' = None"
proof -
  note t = chartPoint_omits_undefined
    [where r = measuredResult and L = reference and th = "[]" and q = "33333 / 1000"]
  have v: "spread (resultValues reference measuredResult) ''failedRowsPercentage'' = None"
    by (rule values_absent) (simp add: coalesce_def)
  from t have "chartPoint reference [] measuredResult ''passedRowsPercentage''
      = Some (Str (numberToString reference (lodash_round reference (Fin (33333 / 1000)) 2) @ ''%''))"
    by simp
  moreover from t have "chartPoint reference [] measuredResult ''failedRowsPercentage''
      = spread (resultValues reference measuredResult) ''failedRowsPercentage''"
    by simp
  ultimately show ?thesis
    by (simp add: v reference_simps sample_numbers)
qed

text \<open>
  C6 as stated fails: a result without \<open>passedRowsPercentage\<close> whose only value is called
  \<open>passedRowsPercentage\<close> gives a chart point that has this key, with the number of the
  value.
\<close>

theorem chartPoint_omits_undefined_counterexample:
  "chartPoint reference []
     \<lparr>timestamp = 300, testCaseStatus = Some Success,
       testResultValue = Some [\<lparr>trv_name = Some ''passedRowsPercentage'', trv_value = Some ''5''\<rparr>],
       passedRows = None, failedRows = None,
       passedRowsPercentage = None, failedRowsPercentage = None,
       incidentId = None\<rparr> ''passedRowsPercentage'' = Some (Num (Fin 5))"
  by (simp add: chartPoint_metric_key metric_lookup percentage_def spread_def resultValues_def
      coalesce_def sample_numbers)

section \<open>Properties of the chart series\<close>

lemma information_chartData:
  "information (chartData L th rs)
   = (case rs of [] \<Rightarrow> []
      | r # _ \<Rightarrow> map (\<lambda>(i, info). \<lparr>label = coalesce (trv_name info) [], color = nthOpt (COLORS L) i\<rparr>)
                  (enumerate 0 (coalesce (testResultValue r) [])))"
  by (simp add: chartData_def coalesce_def split: list.splits option.splits)

text \<open>
  C8 (amended). The series of an empty result list is empty. Otherwise the series is that
  of the first result alone: one entry per result value of the first result, in order,
  with the name of the value as label (the empty string when it has none) and the colour
  at its index in \<open>COLORS\<close> (none beyond the end of the palette). When the names of the
  values are distinct, so are the labels; a repeated name gives repeated entries.
\<close>

theorem chartSeries_from_first:
  "(rs = [] \<longrightarrow> information (chartData L th rs) = [])
   \<and> (rs \<noteq> [] \<longrightarrow>
        information (chartData L th rs) = information (chartData L th [hd rs])
      \<and> length (information (chartData L th rs)) = length (coalesce (testResultValue (hd rs)) [])
      \<and> (\<forall>i < length (coalesce (testResultValue (hd rs)) []).
            information (chartData L th rs) ! i
            = \<lparr>label = coalesce (trv_name (coalesce (testResultValue (hd rs)) [] ! i)) [],
               color = nthOpt (COLORS L) i\<rparr>)
      \<and> (distinct (map (\<lambda>v. coalesce (trv_name v) []) (coalesce (testResultValue (hd rs)) []))
           \<longrightarrow> distinct (map label (information (chartData L th rs)))))"
proof (cases rs)
  case Nil
  then show ?thesis by (simp add: information_chartData)
next
  case (Cons r rs')
  have l: "map label (map (\<lambda>(i, info). \<lparr>label = coalesce (trv_name info) [], color = nthOpt (COLORS L) i\<rparr>)
                  (enumerate 0 vs)) = map (\<lambda>v. coalesce (trv_name v) []) vs" for vs
    by (rule nth_equalityI) (simp_all add: nth_enumerate_eq)
  show ?thesis
    by (simp add: Cons information_chartData l nth_enumerate_eq del: map_map)
qed

theorem chartSeries_from_first_witness:
  "information (chartData reference [] [newerResult, olderResult])
   = [\<lparr>label = ''rowCount'', color = Some ''#7147E8''\<rparr>]"
  using chartSeries_from_first [of "[newerResult, olderResult]" reference "[]"]
  by (simp add: information_chartData coalesce_def nthOpt_def reference_simps)

text \<open>
  C8 as stated fails: a first result with two values of the same name has two entries in
  the series, not one for the one distinct name.
\<close>

theorem chartSeries_from_first_counterexample:
  "information (chartData reference []
     [\<lparr>timestamp = 100, testCaseStatus = Some Success,
       testResultValue = Some [\<lparr>trv_name = Some ''rowCount'', trv_value = Some ''15''\<rparr>,
                               \<lparr>trv_name = Some ''rowCount'', trv_value = Some ''16''\<rparr>],
       passedRows = None, failedRows = None, passedRowsPercentage = None,
       failedRowsPercentage = None, incidentId = None\<rparr>])
   = [\<lparr>label = ''rowCount'', color = Some ''#7147E8''\<rparr>,
      \<lparr>label = ''rowCount'', color = Some ''#B02AAC''\<rparr>]"
  by (simp add: information_chartData coalesce_def nthOpt_def reference_simps)

section \<open>Properties of the metric values\<close>

lemma percentage_not_NaN: "percentage L p \<noteq> Num NaN"
  by (simp add: percentage_def split: option.splits)

lemma optNum_not_NaN: "optNum n \<noteq> Num NaN"
  by (simp add: optNum_def split: option.splits)

lemma metric_not_NaN: "metric L r k \<noteq> Some (Num NaN)"
proof (cases "k \<in> {''passedRows'', ''failedRows'', ''passedRowsPercentage'', ''failedRowsPercentage''}")
  case True
  then show ?thesis
    by (auto simp: metric_lookup percentage_def optNum_def split: option.splits)
next
  case False
  then show ?thesis by (simp add: metric_dom)
qed

lemma values_not_NaN: "spread (resultValues L r) k \<noteq> Some (Num NaN)"
proof
  assume "spread (resultValues L r) k = Some (Num NaN)"
  from resultValues_lookup [OF this] obtain cur where "Num NaN = Num (metricValue L cur)"
    by blast
  then have "metricValue L cur = NaN" by simp
  with orZero_not_NaN show False by (simp add: metricValue_def)
qed

lemma chartPoint_not_NaN: "chartPoint L th r k \<noteq> Some (Num NaN)"
proof (cases "k = ''incidentId'' \<or> k = ''task''")
  case True
  then show ?thesis
    by (auto simp: chartPoint_def optStr_def findTask_def split: option.splits)
next
  case False
  then have n: "k \<noteq> ''incidentId''" "k \<noteq> ''task''" by simp_all
  show ?thesis
    using metric_not_NaN [of L r k] values_not_NaN [of L r k]
    by (auto simp: chartPoint_lookup [OF n] omitBy_def split: option.splits if_splits)
qed

text \<open>
  C9 (amended). The metric computed for a result value is never NaN: when
  \<open>round(parseFloat(v), 2)\<close> is NaN it is \<open>0\<close>. It is finite exactly when
  \<open>round(parseFloat(v), 2)\<close> is not an infinity. No property of a chart point is NaN.
\<close>

theorem metric_never_NaN:
  "metricValue L cur \<noteq> NaN
   \<and> (lodash_round L (parseFloat L (coalesce (trv_value cur) [])) 2 = NaN \<longrightarrow> metricValue L cur = Fin 0)
   \<and> (isFinite (metricValue L cur)
        \<longleftrightarrow> lodash_round L (parseFloat L (coalesce (trv_value cur) [])) 2 \<notin> {PosInf, NegInf})
   \<and> (\<forall>k. chartPoint L th r k \<noteq> Some (Num NaN))"
  using chartPoint_not_NaN [of L th r]
  by (cases "lodash_round L (parseFloat L (coalesce (trv_value cur) [])) 2")
     (simp_all add: metricValue_def orZero_def isFinite_def)

lemma parseFloat_ref_samples:
  "parseFloat_ref ''abc'' = NaN" "parseFloat_ref [] = NaN"
  by code_simp+

theorem metric_never_NaN_witness:
  "lodash_round reference (parseFloat reference ''abc'') 2 = NaN
   \<and> metricValue reference \<lparr>trv_name = Some ''rowCount'', trv_value = Some ''abc''\<rparr> = Fin 0
   \<and> metricValue reference \<lparr>trv_name = Some ''rowCount'', trv_value = None\<rparr> = Fin 0"
  using metric_never_NaN [of reference "\<lparr>trv_name = Some ''rowCount'', trv_value = Some ''abc''\<rparr>"]
    metric_never_NaN [of reference "\<lparr>trv_name = Some ''rowCount'', trv_value = None\<rparr>"]
  by (simp add: coalesce_def reference_simps parseFloat_ref_samples lodash_round_ref_def)

text \<open>
  C9 as stated fails: the string \<open>Infinity\<close> is parsed to an infinity, which \<open>round\<close> returns
  and \<open>|| 0\<close> keeps, so the chart point carries a number that is not finite.
\<close>

theorem metric_never_NaN_counterexample:
  "chartPoint reference []
     \<lparr>timestamp = 100, testCaseStatus = Some Success,
       testResultValue = Some [\<lparr>trv_name = Some ''rowCount'', trv_value = Some ''Infinity''\<rparr>],
       passedRows = None, failedRows = None, passedRowsPercentage = None,
       failedRowsPercentage = None, incidentId = None\<rparr> ''rowCount'' = Some (Num PosInf)
   \<and> \<not> isFinite PosInf"
  by (simp add: chartPoint_lookup metric_dom omitBy_def spread_def resultValues_def
      coalesce_def sample_numbers isFinite_def)

section \<open>Properties of incidentData\<close>

text \<open>
  C7. There is one incident per thread, in the order of the threads. Its end boundary \<open>x2\<close>
  is the thread's \<open>closedAt\<close> when the status of its task is \<open>Closed\<close>, and undefined for any
  other status (also for a thread without a task).
\<close>

theorem incident_end_boundary:
  "map inc_task (incidentData L entityThread rs) = entityThread
   \<and> (\<forall>d \<in> set (incidentData L entityThread rs).
         (Option.bind (task (inc_task d)) status = Some Closed
            \<longrightarrow> x2 d = optNum (Option.bind (task (inc_task d)) closedAt))
       \<and> (Option.bind (task (inc_task d)) status \<noteq> Some Closed \<longrightarrow> x2 d = Undefined))"
  by (auto simp: incidentData_def incidentOf_def Let_def comp_def)

theorem incident_end_boundary_witness:
  "incidentData reference [closedThread, openThread] []
   = [\<lparr>x1 = Undefined, x2 = Num (Fin 1700), inc_task = closedThread\<rparr>,
      \<lparr>x1 = Undefined, x2 = Undefined, inc_task = openThread\<rparr>]"
  using incident_end_boundary [of reference "[closedThread, openThread]" "[]"]
  by (simp add: incidentData_def incidentOf_def chartData_def optNum_def)

lemma incidentOf_no_match:
  assumes "\<forall>p \<in> set dat. get p ''incidentId'' \<noteq> optStr (resolutionStatusId t)"
  shows "x1 (incidentOf dat t) = Undefined"
proof -
  from assms have "filter (\<lambda>chart. optStr (resolutionStatusId t) = get chart ''incidentId'') dat = []"
    by (auto simp: filter_empty_conv)
  then show ?thesis by (simp add: incidentOf_def)
qed

text \<open>
  C3 (amended). For a thread whose resolution status identifier equals the \<open>incidentId\<close>
  of no chart point, the start boundary \<open>x1\<close> of its incident is undefined. The incident is
  in \<open>incidentData\<close> all the same, and when the chart is drawn (not loading, some result) its
  \<open>ReferenceArea\<close> is among the incident areas of the chart, with \<open>x1\<close> undefined and the \<open>x2\<close>
  of the thread: the component does not leave it out.
\<close>

theorem incident_without_point:
  assumes "t \<in> set entityThread"
    and "\<forall>p \<in> set (data (chartData L entityThread (results s))).
           get p ''incidentId'' \<noteq> optStr (resolutionStatusId t)"
  shows "x1 (incidentOf (data (chartData L entityThread (results s))) t) = Undefined
       \<and> incidentOf (data (chartData L entityThread (results s))) t
           \<in> set (incidentData L entityThread (results s))
       \<and> (\<not> isGraphLoading s \<and> results s \<noteq> [] \<longrightarrow>
            (\<exists>c. getGraph L entityThread dat s = Chart c
               \<and> \<lparr>ov_key = thread_id t, ov_x1 = Undefined,
                   ov_x2 = x2 (incidentOf (data (chartData L entityThread (results s))) t)\<rparr>
                 \<in> set (lc_incidents c)))"
proof -
  let ?i = "incidentOf (data (chartData L entityThread (results s))) t"
  have a: "x1 ?i = Undefined" using assms(2) by (rule incidentOf_no_match)
  have b: "?i \<in> set (incidentData L entityThread (results s))"
    using assms(1) by (simp add: incidentData_def)
  have t: "inc_task ?i = t" by (simp add: incidentOf_def)
  have c: "\<lparr>ov_key = thread_id t, ov_x1 = Undefined, ov_x2 = x2 ?i\<rparr>
      \<in> (\<lambda>d. \<lparr>ov_key = thread_id (inc_task d), ov_x1 = x1 d, ov_x2 = x2 d\<rparr>)
          ` set (incidentData L entityThread (results s))"
    using b a t by (metis (mono_tags, lifting) image_eqI)
  from a b c show ?thesis by (simp add: getGraph_def)
qed

theorem incident_without_point_witness:
  "openThread \<in> set [closedThread, openThread]
   \<and> map (\<lambda>p. get p ''incidentId'')
         (data (chartData reference [closedThread, openThread] [newerResult, olderResult]))
       = [Undefined, Str ''i1'']
   \<and> optStr (resolutionStatusId openThread) = Str ''i2''
   \<and> (case getGraph reference [closedThread, openThread] sampleTestCase
              (initialState\<lparr>results := [newerResult, olderResult], isGraphLoading := False\<rparr>)
       of Chart c \<Rightarrow> \<lparr>ov_key = ''b'', ov_x1 = Undefined, ov_x2 = Undefined\<rparr> \<in> set (lc_incidents c)
        | _ \<Rightarrow> False)"
proof -
  have h: "\<forall>p \<in> set (data (chartData reference [closedThread, openThread]
                (results (initialState\<lparr>results := [newerResult, olderResult], isGraphLoading := False\<rparr>)))).
         get p ''incidentId'' \<noteq> optStr (resolutionStatusId openThread)"
    by (simp add: data_chartData get_incidentId optStr_def resolutionStatusId_def)
  have m: "openThread \<in> set [closedThread, openThread]" by simp
  have i: "map (\<lambda>p. get p ''incidentId'')
         (data (chartData reference [closedThread, openThread] [newerResult, olderResult]))
       = [Undefined, Str ''i1'']"
    "optStr (resolutionStatusId openThread) = Str ''i2''"
    by (simp_all add: data_chartData get_incidentId optStr_def resolutionStatusId_def)
  from incident_without_point [OF m h, of sampleTestCase] i
  show ?thesis
    by (auto simp: incidentOf_def resolutionStatusId_def)
qed

text \<open>
  C3 as stated fails: for a closed thread that no chart point matches, the chart has an
  incident area, with no start and the \<open>closedAt\<close> of the thread as its end.
\<close>

theorem incident_without_point_counterexample:
  "map (\<lambda>p. get p ''incidentId'') (data (chartData reference [closedThread] [olderResult]))
     = [Undefined]
   \<and> optStr (resolutionStatusId closedThread) = Str ''i1''
   \<and> (case getGraph reference [closedThread] sampleTestCase
              (initialState\<lparr>results := [olderResult], isGraphLoading := False\<rparr>)
       of Chart c \<Rightarrow> lc_incidents c = [\<lparr>ov_key = ''a'', ov_x1 = Undefined, ov_x2 = Num (Fin 1700)\<rparr>]
        | _ \<Rightarrow> False)"
  by (simp add: getGraph_def incidentData_def incidentOf_def data_chartData get_incidentId
      optStr_def optNum_def resolutionStatusId_def)

section \<open>Properties of fetchTestResults\<close>

lemma fetch_calls_rest:
  "\<not> isEmpty dat \<Longrightarrow>
   restCalls (fetchTestResults dat dateRangeObj response s)
   = restCalls s @ [(coalesce (Option.bind dat fullyQualifiedName) [],
                     startTs dateRangeObj, endTs dateRangeObj)]"
  by (cases response) (simp_all add: fetchTestResults_def Let_def)

text \<open>
  C4 (amended). When the test case handed to the component is missing or empty
  (\<open>isEmpty(data)\<close>), \<open>fetchTestResults\<close> returns at once: the state is the one before, so
  the stored results are unchanged, and no call of the REST function is added to the log.
  The guard looks at the test case as a whole and not at its identifier: for any other
  test case the REST function is called once, and under the empty name when the test case
  has no \<open>fullyQualifiedName\<close>.
\<close>

theorem fetch_short_circuit:
  "(isEmpty dat \<longrightarrow>
       fetchTestResults dat dateRangeObj response s = s
     \<and> restCalls (fetchTestResults dat dateRangeObj response s) = restCalls s
     \<and> results (fetchTestResults dat dateRangeObj response s) = results s)
   \<and> (\<not> isEmpty dat \<longrightarrow>
       restCalls (fetchTestResults dat dateRangeObj response s)
       = restCalls s @ [(coalesce (Option.bind dat fullyQualifiedName) [],
                         startTs dateRangeObj, endTs dateRangeObj)])"
  using fetch_calls_rest [of dat dateRangeObj response s]
  by (simp add: fetchTestResults_def)

theorem fetch_short_circuit_witness:
  "isEmpty (Some \<lparr>tc_name = None, fullyQualifiedName = None, parameterValues = None,
                  description = None, otherKeys = []\<rparr>)
   \<and> fetchTestResults
       (Some \<lparr>tc_name = None, fullyQualifiedName = None, parameterValues = None,
               description = None, otherKeys = []\<rparr>)
       sampleRange (Inr [olderResult]) initialState = initialState
   \<and> isEmpty None
   \<and> fetchTestResults None sampleRange (Inr [olderResult]) initialState = initialState"
  using fetch_short_circuit [of
      "Some \<lparr>tc_name = None, fullyQualifiedName = None, parameterValues = None,
               description = None, otherKeys = []\<rparr>" sampleRange "Inr [olderResult]" initialState]
    fetch_short_circuit [of None sampleRange "Inr [olderResult]" initialState]
  by (simp add: isEmpty_def)

text \<open>
  C4 as stated fails: a test case that has a name but no \<open>fullyQualifiedName\<close>, or an
  empty one, is not empty; the REST function is called under the empty name and the
  stored results are replaced.
\<close>

theorem fetch_short_circuit_counterexample:
  "\<not> isEmpty (Some (sampleTestCase\<lparr>fullyQualifiedName := None\<rparr>))
   \<and> fetchTestResults (Some (sampleTestCase\<lparr>fullyQualifiedName := None\<rparr>))
       sampleRange (Inr [olderResult]) initialState
     = \<lparr>results = [olderResult], isLoading = False, isGraphLoading = False,
        selectedTimeRange = ''Last 30 days'', restCalls = [([], 10, 20)], toasts = []\<rparr>
   \<and> \<not> isEmpty (Some (sampleTestCase\<lparr>fullyQualifiedName := Some []\<rparr>))
   \<and> fetchTestResults (Some (sampleTestCase\<lparr>fullyQualifiedName := Some []\<rparr>))
       sampleRange (Inr [olderResult]) initialState
     = \<lparr>results = [olderResult], isLoading = False, isGraphLoading = False,
        selectedTimeRange = ''Last 30 days'', restCalls = [([], 10, 20)], toasts = []\<rparr>"
  by (simp add: isEmpty_def fetchTestResults_def coalesce_def)

text \<open>
  C5. When a fetch is made and fails, the error is handed to the error toast and the stored
  results stay as they were; they are replaced only when the fetch succeeds. Whatever the
  outcome, \<open>isLoading\<close> and \<open>isGraphLoading\<close> are false afterwards.
\<close>

theorem fetch_failure:
  assumes "\<not> isEmpty dat"
  shows "(response = Inl error \<longrightarrow>
            toasts (fetchTestResults dat dateRangeObj response s) = toasts s @ [error]
          \<and> results (fetchTestResults dat dateRangeObj response s) = results s)
       \<and> (response = Inr fetched \<longrightarrow>
            results (fetchTestResults dat dateRangeObj response s) = fetched
          \<and> toasts (fetchTestResults dat dateRangeObj response s) = toasts s)
       \<and> \<not> isLoading (fetchTestResults dat dateRangeObj response s)
       \<and> \<not> isGraphLoading (fetchTestResults dat dateRangeObj response s)"
  using assms by (cases response) (simp_all add: fetchTestResults_def Let_def)

theorem fetch_failure_witness:
  "\<not> isEmpty (Some sampleTestCase)
   \<and> fetchTestResults (Some sampleTestCase) sampleRange (Inl (AxiosError ''Network Error''))
       (initialState\<lparr>results := [olderResult]\<rparr>)
     = \<lparr>results = [olderResult], isLoading = False, isGraphLoading = False,
        selectedTimeRange = ''Last 30 days'', restCalls = [(''svc.db.t'', 10, 20)],
        toasts = [AxiosError ''Network Error'']\<rparr>"
  using fetch_failure [of "Some sampleTestCase" "Inl (AxiosError ''Network Error'')"
      "AxiosError ''Network Error''" sampleRange "initialState\<lparr>results := [olderResult]\<rparr>" "[]"]
  by (simp add: isEmpty_def fetchTestResults_def coalesce_def)

section \<open>Properties of DataModelSummary\<close>

lemma renders_snoc: "renders e0 (es @ [e]) = updateEffect e (renders e0 es)"
  by (simp add: renders_def)

lemma renders_keeps_nonempty:
  "\<not> isEmptyModel (dataModelDetails s)
   \<Longrightarrow> \<not> isEmptyModel (dataModelDetails (foldl (\<lambda>s e. updateEffect e s) s es))"
  by (induction es arbitrary: s) (simp_all add: updateEffect_def)

text \<open>
  C10. The effect leaves the state alone on an empty \<open>entityDetails\<close>, and when it changes
  the state, the input was not empty and is what is stored. So a render with an empty
  input keeps the stored details, and stored details that are not empty stay so through
  any later renders. The skeleton is loading exactly while \<open>isLoading\<close> holds or the stored
  details are empty.
\<close>

theorem dataModelDetails_kept:
  "(isEmptyModel e \<longrightarrow> updateEffect e s = s)
   \<and> (updateEffect e s \<noteq> s \<longrightarrow> \<not> isEmptyModel e \<and> dataModelDetails (updateEffect e s) = e)
   \<and> (isEmptyModel e \<longrightarrow> renders e0 (es @ [e]) = renders e0 es)
   \<and> (\<not> isEmptyModel (dataModelDetails (renders e0 es))
        \<longrightarrow> \<not> isEmptyModel (dataModelDetails (renders e0 (es @ es'))))
   \<and> (skeletonLoading loading (renders e0 es)
        \<longleftrightarrow> loading \<or> isEmptyModel (dataModelDetails (renders e0 es)))"
proof -
  have "\<not> isEmptyModel (dataModelDetails (renders e0 (es @ es')))"
    if "\<not> isEmptyModel (dataModelDetails (renders e0 es))"
    using renders_keeps_nonempty [OF that, of es'] by (simp add: renders_def)
  then show ?thesis
    by (auto simp: updateEffect_def renders_snoc skeletonLoading_def)
qed

theorem dataModelDetails_kept_witness:
  "isEmptyModel emptyModel \<and> \<not> isEmptyModel sampleModel
   \<and> renders emptyModel [sampleModel, emptyModel] = \<lparr>dataModelDetails = sampleModel\<rparr>
   \<and> \<not> skeletonLoading False (renders emptyModel [sampleModel, emptyModel])
   \<and> skeletonLoading False (renders emptyModel [])"
  using dataModelDetails_kept [of emptyModel "renders emptyModel [sampleModel]" emptyModel "[sampleModel]" "[emptyModel]" False]
  by (simp add: isEmptyModel_def renders_def updateEffect_def mount_def skeletonLoading_def)

section \<open>Properties of referenceArea\<close>

lemma digitChar_inj: "a < 10 \<Longrightarrow> b < 10 \<Longrightarrow> digitChar a = digitChar b \<Longrightarrow> a = b"
proof -
  assume "a < 10" "b < 10" and e: "digitChar a = digitChar b"
  then have "a \<in> {0,1,2,3,4,5,6,7,8,9}" "b \<in> {0,1,2,3,4,5,6,7,8,9}" by auto
  with e show ?thesis by (auto simp: digitChar_def)
qed

lemma natToString_nonempty: "natToString n \<noteq> []"
  by (subst natToString.simps) simp

lemma natToString_inj: "natToString m = natToString n \<Longrightarrow> m = n"
proof (induction m arbitrary: n rule: natToString.induct)
  case (1 m)
  show ?case
  proof (cases "m < 10")
    case True
    then have sm: "natToString m = [digitChar m]" by (subst natToString.simps) simp
    show ?thesis
    proof (cases "n < 10")
      case n: True
      then have "natToString n = [digitChar n]" by (subst natToString.simps) simp
      with sm "1.prems" True n show ?thesis by (simp add: digitChar_inj)
    next
      case n: False
      then have "natToString n = natToString (n div 10) @ [digitChar (n mod 10)]"
        by (subst natToString.simps) simp
      with sm "1.prems" show ?thesis by (simp add: natToString_nonempty)
    qed
  next
    case False
    then have sm: "natToString m = natToString (m div 10) @ [digitChar (m mod 10)]"
      by (subst natToString.simps) simp
    show ?thesis
    proof (cases "n < 10")
      case n: True
      then have "natToString n = [digitChar n]" by (subst natToString.simps) simp
      with sm "1.prems" natToString_nonempty [of "m div 10"] show ?thesis by auto
    next
      case n: False
      then have "natToString n = natToString (n div 10) @ [digitChar (n mod 10)]"
        by (subst natToString.simps) simp
      with sm "1.prems" have a: "natToString (m div 10) = natToString (n div 10)"
        and b: "digitChar (m mod 10) = digitChar (n mod 10)" by simp_all
      from "1.IH" [OF False a] have "m div 10 = n div 10" .
      moreover from b have "m mod 10 = n mod 10" by (simp add: digitChar_inj)
      ultimately show ?thesis by (metis div_mult_mod_eq)
    qed
  qed
qed

lemma yValues_snoc:
  "foldl (\<lambda>acc (i, cur). acc(''y'' @ natToString (i + 1) \<mapsto> Num (parseInt L (orEmpty (param_value cur)))))
       Map.empty (enumerate 0 (ps @ [p]))
   = (yValues L ps)(''y'' @ natToString (length ps + 1) \<mapsto> Num (parseInt L (orEmpty (param_value p))))"
  by (simp add: yValues_def enumerate_append_eq)

lemma yValues_bound:
  "i < length ps \<Longrightarrow>
   yValues L ps (''y'' @ natToString (i + 1)) = Some (Num (parseInt L (orEmpty (param_value (ps ! i)))))"
proof (induction ps rule: rev_induct)
  case Nil
  then show ?case by simp
next
  case (snoc p ps)
  have y: "yValues L (ps @ [p])
      = (yValues L ps)(''y'' @ natToString (length ps + 1) \<mapsto> Num (parseInt L (orEmpty (param_value p))))"
    using yValues_snoc [of L ps p] by (simp add: yValues_def)
  show ?case
  proof (cases "i = length ps")
    case True
    then show ?thesis by (simp add: y)
  next
    case False
    with snoc.prems have l: "i < length ps" by simp
    from False have "natToString (i + 1) \<noteq> natToString (length ps + 1)"
      using natToString_inj by fastforce
    with snoc.IH [OF l] l show ?thesis by (simp add: y nth_append)
  qed
qed

lemma yValues_empty: "yValues L [] = Map.empty"
  by (simp add: yValues_def)

lemma natToString_1: "natToString (Suc 0) = ''1''"
  and natToString_2: "natToString (Suc (Suc 0)) = ''2''"
  by (simp_all add: natToString.simps digitChar_def)

lemma yValues_first_two:
  assumes "2 \<le> length ps"
  shows "yValues L ps ''y1'' = Some (Num (parseInt L (orEmpty (param_value (ps ! 0)))))
       \<and> yValues L ps ''y2'' = Some (Num (parseInt L (orEmpty (param_value (ps ! 1)))))"
proof -
  from assms have l: "0 < length ps" "1 < length ps" by linarith+
  from yValues_bound [OF l(1), of L] yValues_bound [OF l(2), of L]
  show ?thesis by (simp add: natToString_1 natToString_2)
qed

text \<open>
  C2 (amended). With no parameter, \<open>referenceArea\<close> yields a reference area that carries no
  bound at all. With exactly one parameter it yields a reference line and no area. With
  two or more parameters it yields a reference area whose \<open>y1\<close> and \<open>y2\<close> are the values of
  the first and the second parameter, in this order, as \<open>parseInt\<close> reads them.
\<close>

theorem referenceArea_cases:
  "(coalesce (parameterValues dat) [] = [] \<longrightarrow> referenceArea L dat = ReferenceArea Map.empty)
   \<and> (\<forall>p. coalesce (parameterValues dat) [] = [p] \<longrightarrow>
          referenceArea L dat = ReferenceLine [''label'' \<mapsto> optStr (param_name p)])
   \<and> (2 \<le> length (coalesce (parameterValues dat) []) \<longrightarrow>
        referenceArea L dat = ReferenceArea (yValues L (coalesce (parameterValues dat) []))
      \<and> yValues L (coalesce (parameterValues dat) []) ''y1''
          = Some (Num (parseInt L (orEmpty (param_value (coalesce (parameterValues dat) [] ! 0)))))
      \<and> yValues L (coalesce (parameterValues dat) []) ''y2''
          = Some (Num (parseInt L (orEmpty (param_value (coalesce (parameterValues dat) [] ! 1))))))"
  using yValues_first_two [of "coalesce (parameterValues dat) []" L]
  by (auto simp: referenceArea_def Let_def yValues_empty)

lemma parseInt_ref_samples:
  "parseInt_ref ''10'' = Fin 10" "parseInt_ref ''0x20'' = Fin 32"
  by code_simp+

theorem referenceArea_cases_witness:
  "2 \<le> length [\<lparr>param_name = Some ''minValue'', param_value = Some ''10''\<rparr>,
                 \<lparr>param_name = Some ''maxValue'', param_value = Some ''0x20''\<rparr>]
   \<and> referenceArea reference
         (sampleTestCase\<lparr>parameterValues :=
            Some [\<lparr>param_name = Some ''minValue'', param_value = Some ''10''\<rparr>,
                  \<lparr>param_name = Some ''maxValue'', param_value = Some ''0x20''\<rparr>]\<rparr>)
       = ReferenceArea
           (yValues reference [\<lparr>param_name = Some ''minValue'', param_value = Some ''10''\<rparr>,
                               \<lparr>param_name = Some ''maxValue'', param_value = Some ''0x20''\<rparr>])
   \<and> yValues reference [\<lparr>param_name = Some ''minValue'', param_value = Some ''10''\<rparr>,
                         \<lparr>param_name = Some ''maxValue'', param_value = Some ''0x20''\<rparr>] ''y1''
       = Some (Num (Fin 10))
   \<and> yValues reference [\<lparr>param_name = Some ''minValue'', param_value = Some ''10''\<rparr>,
                         \<lparr>param_name = Some ''maxValue'', param_value = Some ''0x20''\<rparr>] ''y2''
       = Some (Num (Fin 32))"
  using referenceArea_cases [of
         "sampleTestCase\<lparr>parameterValues :=
            Some [\<lparr>param_name = Some ''minValue'', param_value = Some ''10''\<rparr>,
                  \<lparr>param_name = Some ''maxValue'', param_value = Some ''0x20''\<rparr>]\<rparr>" reference]
  by (simp add: coalesce_def orEmpty_def reference_simps parseInt_ref_samples)

text \<open>
  C2 as stated fails twice. With no parameter the element returned is a reference area
  (one without bounds), not nothing. With one parameter the reference line is handed the
  name of the parameter as its label and no \<open>y\<close>: the element is the same whatever the
  value of the parameter, so nothing places the line at that value or makes it
  horizontal. The branch for two parameters does hand the parsed values on.
\<close>

theorem referenceArea_none_counterexample:
  "referenceArea reference (sampleTestCase\<lparr>parameterValues := Some []\<rparr>)
     = ReferenceArea Map.empty
   \<and> referenceArea reference
       (sampleTestCase\<lparr>parameterValues :=
          Some [\<lparr>param_name = Some ''minValue'', param_value = Some ''10''\<rparr>]\<rparr>)
     = ReferenceLine [''label'' \<mapsto> Str ''minValue'']
   \<and> referenceArea reference
       (sampleTestCase\<lparr>parameterValues :=
          Some [\<lparr>param_name = Some ''minValue'', param_value = Some ''99''\<rparr>]\<rparr>)
     = ReferenceLine [''label'' \<mapsto> Str ''minValue'']
   \<and> [''label'' \<mapsto> Str ''minValue''] ''y'' = None"
  by (simp add: referenceArea_def coalesce_def yValues_def optStr_def)

end
